theory Spec2Isabelle

  imports Main

begin

section \<open>JavaScript values\<close>

text \<open>
  The values that reach the middleware are decoded ones: URL parameters and body fields.
  A decoded value is never \<open>undefined\<close>, so a property read gives a \<open>json option\<close>,
  with \<open>None\<close> for \<open>undefined\<close> (the key is absent). Numbers matter here only through
  their truthiness (zero or not), so they are integers.
\<close>

datatype json =
    JNull
  | JBool bool
  | JNum int
  | JStr string
  | JArr "json list"
  | JObj "(string \<times> json) list"

type_synonym jsval = "json option"

type_synonym object = "string \<Rightarrow> json option"

fun truthy_json :: "json \<Rightarrow> bool" where
  "truthy_json JNull = False"
| "truthy_json (JBool b) = b"
| "truthy_json (JNum n) = (n \<noteq> 0)"
| "truthy_json (JStr s) = (s \<noteq> [])"
| "truthy_json (JArr xs) = True"
| "truthy_json (JObj kvs) = True"

definition truthy :: "jsval \<Rightarrow> bool" where
  "truthy v = (case v of None \<Rightarrow> False | Some j \<Rightarrow> truthy_json j)"

text \<open>The operator \<open>a || b\<close>: \<open>a\<close> when it is truthy, \<open>b\<close> otherwise.\<close>

definition js_or :: "jsval \<Rightarrow> jsval \<Rightarrow> jsval" where
  "js_or a b = (if truthy a then a else b)"

section \<open>Errors\<close>

text \<open>
  An error object: \<open>new Error(message)\<close> has no status, \<open>httpError(status, message)\<close>
  has one. A thrown error is the \<open>Inl\<close> of a sum.
\<close>

record js_error =
  error_status :: "nat option"
  error_message :: string

definition Error :: "string \<Rightarrow> js_error" where
  "Error msg = \<lparr>error_status = None, error_message = msg\<rparr>"

definition httpError :: "nat \<Rightarrow> string \<Rightarrow> js_error" where
  "httpError st msg = \<lparr>error_status = Some st, error_message = msg\<rparr>"

section \<open>Requests, options, results and responses\<close>

text \<open>
  The request as the middleware reads it: \<open>request.method\<close> (here \<open>http_method\<close>),
  \<open>request.query\<close> (the
  decoded URL parameters) and \<open>request.accepts\<close> (content negotiation, given the list of
  offered types; \<open>None\<close> when none is acceptable). \<open>parsedBody\<close> is what decoding the
  body of this request yields: an error, or the decoded mapping (\<open>None\<close> when there is
  nothing to decode).
\<close>

record request =
  http_method :: string
  query :: object
  accepts :: "string list \<Rightarrow> string option"
  parsedBody :: "js_error + object option"

text \<open>\<open>OptionsObj\<close> (lines 26-46); an absent field is \<open>None\<close>.\<close>

record ('schema, 'root) optionsObj =
  schema :: "'schema option"
  rootValue :: "'root option"
  pretty :: "bool option"
  graphiql :: "bool option"

text \<open>
  \<open>Options\<close> (line 25): an options object, or a function of the request; the function
  gives \<open>None\<close> when what it returns is not an object.
\<close>

datatype ('schema, 'root) options =
    OptionsObject "('schema, 'root) optionsObj"
  | OptionsFunction "request \<Rightarrow> ('schema, 'root) optionsObj option"

text \<open>\<open>GraphQLParams\<close> (lines 194-198).\<close>

record graphQLParams =
  params_query :: jsval
  params_variables :: jsval
  params_operationName :: jsval

text \<open>
  A result object \<open>{data?, errors?}\<close>. \<open>result_data\<close> is \<open>None\<close> when the object has no
  own \<open>data\<close> key, \<open>Some v\<close> when it has one with value \<open>v\<close> (\<open>Some None\<close>: the key is
  there and its value is \<open>undefined\<close>). \<open>result_errors\<close> is \<open>None\<close> when there is no
  error list.
\<close>

record 'e result =
  result_data :: "jsval option"
  result_errors :: "'e list option"

text \<open>
  What is sent: \<open>JSON.stringify(result, null, indent)\<close> or \<open>renderGraphiQL(data)\<close>, kept
  symbolic (the serialiser and the renderer are not part of this file).
\<close>

record graphiQLData =
  graphiql_query :: jsval
  graphiql_variables :: jsval
  graphiql_result :: "json result option"

datatype body =
    JSON_stringify "json result" nat
  | renderGraphiQL graphiQLData

text \<open>The express response: the status (200 until set), the headers, and what was sent.\<close>

record response =
  status :: nat
  headers :: "string \<Rightarrow> string option"
  body :: "body option"

definition set_header :: "string \<Rightarrow> string \<Rightarrow> response \<Rightarrow> response" where
  "set_header k v r = r\<lparr>headers := (headers r)(k \<mapsto> v)\<rparr>"

definition send :: "body \<Rightarrow> response \<Rightarrow> response" where
  "send b r = r\<lparr>body := Some b\<rparr>"

definition fresh_response :: response where
  "fresh_response = \<lparr>status = 200, headers = Map.empty, body = None\<rparr>"

section \<open>The collaborators\<close>

text \<open>
  The GraphQL engine (graphql-js) and \<open>JSON.parse\<close> are parameters. Each engine function
  may throw (\<open>Inl\<close>); \<open>execute\<close> returns a promise, whose rejection is \<open>Inl\<close> too.
  \<open>parse\<close> is given the query, for \<open>parse(new Source(query, 'GraphQL request'))\<close>.
  \<open>getOperationAST\<close> gives the \<open>operation\<close> field of the operation it finds, \<open>None\<close> when
  it finds none. \<open>JSON_parse\<close> gives \<open>None\<close> where \<open>JSON.parse\<close> throws.
\<close>

record ('doc, 'schema, 'root) collaborators =
  parse :: "jsval \<Rightarrow> js_error + 'doc"
  validate :: "'schema option \<Rightarrow> 'doc \<Rightarrow> js_error + js_error list"
  getOperationAST :: "'doc \<Rightarrow> jsval \<Rightarrow> js_error + string option"
  execute :: "'schema option \<Rightarrow> 'doc \<Rightarrow> 'root option \<Rightarrow> jsval \<Rightarrow> jsval
                \<Rightarrow> js_error + js_error result"
  formatError :: "js_error \<Rightarrow> json"
  JSON_parse :: "string \<Rightarrow> json option"

text \<open>The calls made to the engine, in order, are recorded beside the response.\<close>

datatype engine_call = Parse | Validate | GetOperationAST | Execute

record world =
  response :: response
  calls :: "engine_call list"

definition called :: "engine_call \<Rightarrow> world \<Rightarrow> world" where
  "called c w = w\<lparr>calls := calls w @ [c]\<rparr>"

definition start :: world where
  "start = \<lparr>response = fresh_response, calls = []\<rparr>"

section \<open>The helpers of index.js\<close>

text \<open>\<open>getOptions\<close> (lines 176-192).\<close>

definition getOptions ::
  "('schema, 'root) options \<Rightarrow> request \<Rightarrow> js_error + ('schema, 'root) optionsObj" where
  "getOptions opts request =
     (let optionsData = (case opts of OptionsFunction f \<Rightarrow> f request
                                    | OptionsObject obj \<Rightarrow> Some obj)
      in case optionsData of
           None \<Rightarrow> Inl (Error ''GraphQL middleware option function must return an options object.'')
         | Some od \<Rightarrow>
             if schema od = None
             then Inl (Error ''GraphQL middleware options must contain a schema.'')
             else Inr od)"

text \<open>\<open>getGraphQLParams\<close> (lines 203-221).\<close>

definition getGraphQLParams ::
  "('doc, 'schema, 'root) collaborators \<Rightarrow> request \<Rightarrow> object \<Rightarrow> js_error + graphQLParams" where
  "getGraphQLParams env request data =
     (let query' = js_or (query request ''query'') (data ''query'');
          variables = js_or (query request ''variables'') (data ''variables'');
          operationName = js_or (query request ''operationName'') (data ''operationName'')
      in case variables of
           Some (JStr s) \<Rightarrow>
             if s \<noteq> [] then
               (case JSON_parse env s of
                  None \<Rightarrow> Inl (httpError 400 ''Variables are invalid JSON.'')
                | Some v \<Rightarrow>
                    Inr \<lparr>params_query = query', params_variables = Some v,
                         params_operationName = operationName\<rparr>)
             else Inr \<lparr>params_query = query', params_variables = variables,
                       params_operationName = operationName\<rparr>
         | _ \<Rightarrow> Inr \<lparr>params_query = query', params_variables = variables,
                     params_operationName = operationName\<rparr>)"

text \<open>\<open>canDisplayGraphiQL\<close> (lines 226-232); \<open>raw\<close> is its local variable (line 228).\<close>

definition raw :: "request \<Rightarrow> object \<Rightarrow> bool" where
  "raw request data = (query request ''raw'' \<noteq> None \<or> data ''raw'' \<noteq> None)"

definition canDisplayGraphiQL :: "request \<Rightarrow> object \<Rightarrow> bool" where
  "canDisplayGraphiQL request data =
     (\<not> raw request data \<and> accepts request [''json'', ''html''] = Some ''html'')"

text \<open>\<open>sendError\<close> (lines 237-243).\<close>

definition indent :: "bool option \<Rightarrow> nat" where
  "indent p = (if p = Some True then 2 else 0)"

definition sendError ::
  "('doc, 'schema, 'root) collaborators \<Rightarrow> response \<Rightarrow> js_error \<Rightarrow> bool option \<Rightarrow> response" where
  "sendError env resp error p =
     (let errorResponse = \<lparr>result_data = None, result_errors = Some [formatError env error]\<rparr>
      in send (JSON_stringify errorResponse (indent p))
           (set_header ''Content-Type'' ''application/json''
             (resp\<lparr>status := (case error_status error of
                                 None \<Rightarrow> 500
                               | Some st \<Rightarrow> if st = 0 then 500 else st)\<rparr>)))"

section \<open>The middleware\<close>

text \<open>
  The promise of lines 96-143: its executor resolves it, throws (the promise is rejected),
  or answers the request itself and returns, and then the promise stays pending.
\<close>

datatype promise = Resolved "js_error result" | Rejected js_error | Pending

text \<open>Lines 132-141: \<open>resolve(execute(...))\<close>.\<close>

definition perform_execution ::
  "('doc, 'schema, 'root) collaborators \<Rightarrow> ('schema, 'root) optionsObj \<Rightarrow> 'doc
     \<Rightarrow> graphQLParams \<Rightarrow> world \<Rightarrow> promise \<times> world" where
  "perform_execution env opts documentAST params w =
     (case execute env (schema opts) documentAST (rootValue opts)
             (params_variables params) (params_operationName params) of
        Inl error \<Rightarrow> (Rejected error, called Execute w)
      | Inr res \<Rightarrow> (Resolved res, called Execute w))"

text \<open>Lines 96-142: the executor.\<close>

definition executor ::
  "('doc, 'schema, 'root) collaborators \<Rightarrow> ('schema, 'root) optionsObj \<Rightarrow> request \<Rightarrow> object
     \<Rightarrow> graphQLParams \<Rightarrow> world \<Rightarrow> promise \<times> world" where
  "executor env opts request data params w =
     (let w1 = called Parse w in
      case parse env (params_query params) of
        Inl error \<Rightarrow> (Rejected error, w1)
      | Inr documentAST \<Rightarrow>
          (let w2 = called Validate w1 in
           case validate env (schema opts) documentAST of
             Inl error \<Rightarrow> (Rejected error, w2)
           | Inr validationErrors \<Rightarrow>
               if length validationErrors > 0
               then (Resolved \<lparr>result_data = None, result_errors = Some validationErrors\<rparr>, w2)
               else if http_method request = ''GET'' then
                 (let w3 = called GetOperationAST w2 in
                  case getOperationAST env documentAST (params_operationName params) of
                    Inl error \<Rightarrow> (Rejected error, w3)
                  | Inr None \<Rightarrow> perform_execution env opts documentAST params w3
                  | Inr (Some operation) \<Rightarrow>
                      if operation \<noteq> ''query'' then
                        (if graphiql opts = Some True \<and> canDisplayGraphiQL request data
                         then (Pending,
                               w3\<lparr>response :=
                                    send (renderGraphiQL
                                            \<lparr>graphiql_query = params_query params,
                                             graphiql_variables = params_variables params,
                                             graphiql_result = None\<rparr>)
                                      (set_header ''Content-Type'' ''text/html'' (response w3))\<rparr>)
                         else (Pending,
                               w3\<lparr>response :=
                                    sendError env (set_header ''Allow'' ''POST'' (response w3))
                                      (httpError 405
                                         (''Can only perform a '' @ operation @
                                          '' operation from a POST request.''))
                                      (pretty opts)\<rparr>))
                      else perform_execution env opts documentAST params w3)
               else perform_execution env opts documentAST params w2))"

text \<open>Lines 143-145: \<open>.catch(error => ({ errors: [ error ] }))\<close>; \<open>None\<close> while pending.\<close>

definition catch :: "promise \<Rightarrow> js_error result option" where
  "catch p = (case p of
                Resolved res \<Rightarrow> Some res
              | Rejected error \<Rightarrow> Some \<lparr>result_data = None, result_errors = Some [error]\<rparr>
              | Pending \<Rightarrow> None)"

text \<open>Lines 145-167: the handler of the settled result.\<close>

definition respond ::
  "('doc, 'schema, 'root) collaborators \<Rightarrow> ('schema, 'root) optionsObj \<Rightarrow> request \<Rightarrow> object
     \<Rightarrow> graphQLParams \<Rightarrow> js_error result \<Rightarrow> response \<Rightarrow> response" where
  "respond env opts request data params res resp =
     (let formatted = \<lparr>result_data = result_data res,
                       result_errors = (case result_errors res of
                                          None \<Rightarrow> None
                                        | Some es \<Rightarrow> Some (map (formatError env) es))\<rparr>;
          resp1 = resp\<lparr>status := (if result_data formatted \<noteq> None then 200 else 400)\<rparr>
      in if graphiql opts = Some True \<and> canDisplayGraphiQL request data
         then send (renderGraphiQL
                      \<lparr>graphiql_query = params_query params,
                       graphiql_variables = params_variables params,
                       graphiql_result = Some formatted\<rparr>)
                (set_header ''Content-Type'' ''text/html'' resp1)
         else send (JSON_stringify formatted (indent (pretty opts)))
                (set_header ''Content-Type'' ''application/json'' resp1))"

text \<open>Lines 95-167: the promise chain.\<close>

definition run_query ::
  "('doc, 'schema, 'root) collaborators \<Rightarrow> ('schema, 'root) optionsObj \<Rightarrow> request \<Rightarrow> object
     \<Rightarrow> graphQLParams \<Rightarrow> world \<Rightarrow> world" where
  "run_query env opts request data params w =
     (case executor env opts request data params w of
        (p, w') \<Rightarrow>
          (case catch p of
             None \<Rightarrow> w'
           | Some res \<Rightarrow> w'\<lparr>response := respond env opts request data params res (response w')\<rparr>))"

text \<open>Line 74: the default parameter \<open>data = {}\<close>.\<close>

definition default_data :: "object option \<Rightarrow> object" where
  "default_data data_arg = (case data_arg of None \<Rightarrow> Map.empty | Some d \<Rightarrow> d)"

text \<open>
  Lines 74-168: the callback given to \<open>parseBody\<close>, a closure over the options, the
  request and the response. It answers the request (\<open>Inr\<close>) or throws (\<open>Inl\<close>);
  \<open>data\<close> defaults to the empty object.
\<close>

definition parseBody_callback ::
  "('doc, 'schema, 'root) collaborators \<Rightarrow> ('schema, 'root) optionsObj \<Rightarrow> request
     \<Rightarrow> world \<Rightarrow> js_error option \<Rightarrow> object option \<Rightarrow> js_error + world" where
  "parseBody_callback env opts request w parseError data_arg =
     (let data = default_data data_arg in
      case parseError of
        Some error \<Rightarrow> Inr (w\<lparr>response := sendError env (response w) error (pretty opts)\<rparr>)
      | None \<Rightarrow>
          (case getGraphQLParams env request data of
             Inl error \<Rightarrow> Inl error
           | Inr params \<Rightarrow>
               if \<not> truthy (params_query params) then
                 (if graphiql opts = Some True \<and> canDisplayGraphiQL request data
                  then Inr (w\<lparr>response :=
                               send (renderGraphiQL
                                       \<lparr>graphiql_query = None, graphiql_variables = None,
                                        graphiql_result = None\<rparr>)
                                 (set_header ''Content-Type'' ''text/html'' (response w))\<rparr>)
                  else Inl (httpError 400 ''Must provide query string.''))
               else Inr (run_query env opts request data params w)))"

text \<open>
  Modelled from the spec: \<open>parseBody\<close> (\<open>./parseBody\<close>, imported at line 17) is not among
  the sources. The spec has it yield "either an error or a mapping" to the callback, and
  has every protocol failure, a missing query string and a malformed variables payload
  among them, "surfaced directly as that status with a single-element error list", a
  decoding error being treated "identically to any other ProtocolFailure". So an error
  that the callback throws is handed to the callback as the decoding error.
\<close>

definition parseBody ::
  "request \<Rightarrow> (js_error option \<Rightarrow> object option \<Rightarrow> js_error + 'a) \<Rightarrow> js_error + 'a" where
  "parseBody request next' =
     (case (case parsedBody request of
              Inl parseError \<Rightarrow> next' (Some parseError) None
            | Inr data \<Rightarrow> next' None data) of
        Inl thrown \<Rightarrow> next' (Some thrown) None
      | Inr done' \<Rightarrow> Inr done')"

text \<open>Lines 59-169: the middleware that \<open>graphqlHTTP\<close> returns.\<close>

definition middleware ::
  "('doc, 'schema, 'root) collaborators \<Rightarrow> ('schema, 'root) options \<Rightarrow> request
     \<Rightarrow> world \<Rightarrow> js_error + world" where
  "middleware env opts request w =
     (case getOptions opts request of
        Inl error \<Rightarrow> Inl error
      | Inr od \<Rightarrow>
          if http_method request \<noteq> ''GET'' \<and> http_method request \<noteq> ''POST''
          then Inr (w\<lparr>response :=
                       sendError env (set_header ''Allow'' ''GET, POST'' (response w))
                         (httpError 405 ''GraphQL only supports GET and POST requests.'')
                         (pretty od)\<rparr>)
          else parseBody request (parseBody_callback env od request w))"

text \<open>\<open>graphqlHTTP\<close> (lines 54-170); \<open>None\<close> is a missing \<open>options\<close> argument.\<close>

definition graphqlHTTP ::
  "('doc, 'schema, 'root) collaborators \<Rightarrow> ('schema, 'root) options option
     \<Rightarrow> js_error + (request \<Rightarrow> world \<Rightarrow> js_error + world)" where
  "graphqlHTTP env opts =
     (case opts of
        None \<Rightarrow> Inl (Error ''GraphQL middleware requires options.'')
      | Some o' \<Rightarrow> Inr (middleware env o'))"

section \<open>Example collaborators and requests\<close>

text \<open>A small engine, on which the theorems below are instantiated.\<close>

definition example_collaborators :: "(string, unit, unit) collaborators" where
  "example_collaborators =
     \<lparr>parse = (\<lambda>q. case q of
                       Some (JStr s) \<Rightarrow> if s = ''{'' then Inl (Error ''Syntax Error'') else Inr s
                     | _ \<Rightarrow> Inl (Error ''Syntax Error'')),
      validate = (\<lambda>sch doc. if doc = ''{unknown}''
                              then Inr [Error ''Cannot query field unknown'']
                              else Inr []),
      getOperationAST = (\<lambda>doc name.
                           if doc = ''mutation {m}'' then Inr (Some ''mutation'')
                           else if doc = ''query A {a} mutation B {m}'' \<and> name = None
                           then Inr None
                           else Inr (Some ''query'')),
      execute = (\<lambda>sch doc root vars name.
                   if doc = ''{boom}'' then Inl (Error ''boom'')
                   else if doc = ''query A {a} mutation B {m}'' \<and> name = None
                   then Inl (Error ''Must provide operation name.'')
                   else Inr \<lparr>result_data = Some (Some JNull), result_errors = None\<rparr>),
      formatError = (\<lambda>e. JObj [(''message'', JStr (error_message e))]),
      JSON_parse = (\<lambda>s. if s = ''{}'' then Some (JObj []) else None)\<rparr>"

definition example_optionsObj :: "bool \<Rightarrow> (unit, unit) optionsObj" where
  "example_optionsObj g =
     \<lparr>schema = Some (), rootValue = None, pretty = None, graphiql = Some g\<rparr>"

definition example_request :: "string \<Rightarrow> object \<Rightarrow> object option \<Rightarrow> string \<Rightarrow> request" where
  "example_request m q b a =
     \<lparr>http_method = m, query = q, accepts = (\<lambda>types. Some a), parsedBody = Inr b\<rparr>"

definition example_params :: "string \<Rightarrow> graphQLParams" where
  "example_params q =
     \<lparr>params_query = Some (JStr q), params_variables = None, params_operationName = None\<rparr>"

text \<open>
  A GET request whose document has two operations and which names none: the lookup finds
  no operation, and execution throws.
\<close>

definition example_unresolved :: "js_error + world" where
  "example_unresolved =
     middleware example_collaborators (OptionsObject (example_optionsObj False))
       (example_request ''GET'' [''query'' \<mapsto> JStr ''query A {a} mutation B {m}''] None ''json'')
       start"

text \<open>A POST request with \<open>?query=\<close> in the URL and the query in the body.\<close>

definition example_body :: object where
  "example_body = [''query'' \<mapsto> JStr ''{a}'']"

definition example_empty_url_query :: request where
  "example_empty_url_query =
     example_request ''POST'' [''query'' \<mapsto> JStr []] (Some example_body) ''json''"

text \<open>A POST request whose body gives the empty string as \<open>variables\<close>.\<close>

definition example_empty_body :: object where
  "example_empty_body = [''query'' \<mapsto> JStr ''{a}'', ''variables'' \<mapsto> JStr []]"

definition example_empty_variables :: request where
  "example_empty_variables =
     example_request ''POST'' Map.empty (Some example_empty_body) ''json''"

section \<open>The paths through the middleware\<close>

lemma example_request_simps [simp]:
  "http_method (example_request m q b a) = m"
  "query (example_request m q b a) = q"
  "accepts (example_request m q b a) types = Some a"
  "parsedBody (example_request m q b a) = Inr b"
  by (simp_all add: example_request_def)

lemma example_optionsObj_simps [simp]:
  "schema (example_optionsObj g) = Some ()"
  "rootValue (example_optionsObj g) = None"
  "pretty (example_optionsObj g) = None"
  "graphiql (example_optionsObj g) = Some g"
  by (simp_all add: example_optionsObj_def)

lemma example_params_simps [simp]:
  "params_query (example_params q) = Some (JStr q)"
  "params_variables (example_params q) = None"
  "params_operationName (example_params q) = None"
  by (simp_all add: example_params_def)

lemma error_simps [simp]:
  "error_message (Error msg) = msg"
  "error_status (Error msg) = None"
  "error_message (httpError st msg) = msg"
  "error_status (httpError st msg) = Some st"
  by (simp_all add: Error_def httpError_def)

lemma example_collaborators_simps [simp]:
  "parse example_collaborators (Some (JStr s)) =
     (if s = ''{'' then Inl (Error ''Syntax Error'') else Inr s)"
  "validate example_collaborators sch doc =
     (if doc = ''{unknown}'' then Inr [Error ''Cannot query field unknown''] else Inr [])"
  "getOperationAST example_collaborators doc name =
     (if doc = ''mutation {m}'' then Inr (Some ''mutation'')
      else if doc = ''query A {a} mutation B {m}'' \<and> name = None then Inr None
      else Inr (Some ''query''))"
  "execute example_collaborators sch doc root vars name =
     (if doc = ''{boom}'' then Inl (Error ''boom'')
      else if doc = ''query A {a} mutation B {m}'' \<and> name = None
      then Inl (Error ''Must provide operation name.'')
      else Inr \<lparr>result_data = Some (Some JNull), result_errors = None\<rparr>)"
  "formatError example_collaborators e = JObj [(''message'', JStr (error_message e))]"
  "JSON_parse example_collaborators s = (if s = ''{}'' then Some (JObj []) else None)"
  by (simp_all add: example_collaborators_def)

lemma middleware_parseBody:
  assumes "getOptions opts request = Inr od"
    and "http_method request = ''GET'' \<or> http_method request = ''POST''"
  shows "middleware env opts request w = parseBody request (parseBody_callback env od request w)"
  using assms by (auto simp: middleware_def)

lemma parseBody_answered:
  assumes "parsedBody request = Inr d" and "next' None d = Inr x"
  shows "parseBody request next' = Inr x"
  using assms by (simp add: parseBody_def)

lemma parseBody_thrown:
  assumes "parsedBody request = Inr d" and "next' None d = Inl thrown"
  shows "parseBody request next' = next' (Some thrown) None"
  using assms by (simp add: parseBody_def)

lemma callback_parseError:
  "parseBody_callback env od request w (Some error) d =
     Inr (w\<lparr>response := sendError env (response w) error (pretty od)\<rparr>)"
  by (simp add: parseBody_callback_def)

lemma callback_run_query:
  assumes "getGraphQLParams env request (default_data d) = Inr params"
    and "truthy (params_query params)"
  shows "parseBody_callback env od request w None d =
           Inr (run_query env od request (default_data d) params w)"
  using assms by (simp add: parseBody_callback_def)

lemma middleware_run_query:
  assumes "getOptions opts request = Inr od"
    and "http_method request = ''GET'' \<or> http_method request = ''POST''"
    and "parsedBody request = Inr d"
    and "getGraphQLParams env request (default_data d) = Inr params"
    and "truthy (params_query params)"
  shows "middleware env opts request w = Inr (run_query env od request (default_data d) params w)"
proof -
  have "parseBody_callback env od request w None d =
          Inr (run_query env od request (default_data d) params w)"
    using assms(4,5) by (rule callback_run_query)
  with assms(3)
  have "parseBody request (parseBody_callback env od request w) =
          Inr (run_query env od request (default_data d) params w)"
    by (rule parseBody_answered)
  with middleware_parseBody [OF assms(1,2), of env w] show ?thesis
    by simp
qed

lemma sendError_body:
  "body (sendError env resp error p) =
     Some (JSON_stringify \<lparr>result_data = None, result_errors = Some [formatError env error]\<rparr>
             (indent p))"
  by (simp add: sendError_def send_def set_header_def)

lemma sendError_headers:
  "headers (sendError env resp error p) = (headers resp)(''Content-Type'' \<mapsto> ''application/json'')"
  by (simp add: sendError_def send_def set_header_def)

lemma run_query_pending:
  assumes "executor env od request data params w = (Pending, w')"
  shows "run_query env od request data params w = w'"
  using assms by (simp add: run_query_def catch_def)

lemma respond_status:
  "status (respond env od request data params res resp) =
     (if result_data res = None then 400 else 200)"
  by (simp add: respond_def Let_def send_def set_header_def)

lemma executor_non_query:
  assumes "parse env (params_query params) = Inr documentAST"
    and "validate env (schema od) documentAST = Inr []"
    and "http_method request = ''GET''"
    and "getOperationAST env documentAST (params_operationName params) = Inr (Some operation)"
    and "operation \<noteq> ''query''"
  shows "executor env od request data params w =
           (Pending,
            (if graphiql od = Some True \<and> canDisplayGraphiQL request data
             then w\<lparr>response :=
                      send (renderGraphiQL
                              \<lparr>graphiql_query = params_query params,
                               graphiql_variables = params_variables params,
                               graphiql_result = None\<rparr>)
                        (set_header ''Content-Type'' ''text/html'' (response w)),
                    calls := calls w @ [Parse, Validate, GetOperationAST]\<rparr>
             else w\<lparr>response :=
                      sendError env (set_header ''Allow'' ''POST'' (response w))
                        (httpError 405
                           (''Can only perform a '' @ operation @
                            '' operation from a POST request.''))
                        (pretty od),
                    calls := calls w @ [Parse, Validate, GetOperationAST]\<rparr>))"
  using assms by (simp add: executor_def called_def Let_def)

lemma executor_unresolved:
  assumes "parse env (params_query params) = Inr documentAST"
    and "validate env (schema od) documentAST = Inr []"
    and "http_method request = ''GET''"
    and "getOperationAST env documentAST (params_operationName params) = Inr None"
  shows "executor env od request data params w =
           perform_execution env od documentAST params
             (w\<lparr>calls := calls w @ [Parse, Validate, GetOperationAST]\<rparr>)"
  using assms by (simp add: executor_def called_def Let_def)

lemma executor_query:
  assumes "parse env (params_query params) = Inr documentAST"
    and "validate env (schema od) documentAST = Inr []"
    and "http_method request = ''GET''"
    and "getOperationAST env documentAST (params_operationName params) = Inr (Some ''query'')"
  shows "executor env od request data params w =
           perform_execution env od documentAST params
             (w\<lparr>calls := calls w @ [Parse, Validate, GetOperationAST]\<rparr>)"
  using assms by (simp add: executor_def called_def Let_def)

lemma executor_post:
  assumes "parse env (params_query params) = Inr documentAST"
    and "validate env (schema od) documentAST = Inr []"
    and "http_method request \<noteq> ''GET''"
  shows "executor env od request data params w =
           perform_execution env od documentAST params
             (w\<lparr>calls := calls w @ [Parse, Validate]\<rparr>)"
  using assms by (simp add: executor_def called_def Let_def)

lemma executor_invalid:
  assumes "parse env (params_query params) = Inr documentAST"
    and "validate env (schema od) documentAST = Inr validationErrors"
    and "validationErrors \<noteq> []"
  shows "executor env od request data params w =
           (Resolved \<lparr>result_data = None, result_errors = Some validationErrors\<rparr>,
            w\<lparr>calls := calls w @ [Parse, Validate]\<rparr>)"
  using assms by (simp add: executor_def called_def Let_def)

lemma perform_execution_settles:
  "perform_execution env od documentAST params w =
     (case execute env (schema od) documentAST (rootValue od)
             (params_variables params) (params_operationName params) of
        Inl error \<Rightarrow> Rejected error
      | Inr res \<Rightarrow> Resolved res,
      w\<lparr>calls := calls w @ [Execute]\<rparr>)"
  by (simp add: perform_execution_def called_def split: sum.splits)

lemma catch_perform:
  "catch (case x of Inl error \<Rightarrow> Rejected error | Inr res \<Rightarrow> Resolved res) =
     Some (case x of
             Inl error \<Rightarrow> \<lparr>result_data = None, result_errors = Some [error]\<rparr>
           | Inr res \<Rightarrow> res)"
  by (simp add: catch_def split: sum.splits)

lemma run_query_catch:
  assumes "catch (fst (executor env od request data params w)) = Some res"
  shows "run_query env od request data params w =
           (snd (executor env od request data params w))
             \<lparr>response := respond env od request data params res
                            (response (snd (executor env od request data params w)))\<rparr>"
  using assms by (cases "executor env od request data params w") (simp add: run_query_def)

lemma run_query_executed:
  assumes "executor env od request data params w =
             perform_execution env od documentAST params w1"
  shows "run_query env od request data params w =
           w1\<lparr>calls := calls w1 @ [Execute],
               response :=
                 respond env od request data params
                   (case execute env (schema od) documentAST (rootValue od)
                           (params_variables params) (params_operationName params) of
                      Inl error \<Rightarrow> \<lparr>result_data = None, result_errors = Some [error]\<rparr>
                    | Inr res \<Rightarrow> res)
                   (response w1)\<rparr>"
  using assms
  by (simp add: run_query_def perform_execution_settles catch_perform)

lemma respond_headers:
  "k \<noteq> ''Content-Type'' \<Longrightarrow>
     headers (respond env od request data params res resp) k = headers resp k"
  by (simp add: respond_def Let_def send_def set_header_def)

lemma respond_body:
  "body (respond env od request data params res resp) =
     Some (if graphiql od = Some True \<and> canDisplayGraphiQL request data
           then renderGraphiQL
                  \<lparr>graphiql_query = params_query params,
                   graphiql_variables = params_variables params,
                   graphiql_result =
                     Some \<lparr>result_data = result_data res,
                           result_errors = map_option (map (formatError env)) (result_errors res)\<rparr>\<rparr>
           else JSON_stringify
                  \<lparr>result_data = result_data res,
                   result_errors = map_option (map (formatError env)) (result_errors res)\<rparr>
                  (indent (pretty od)))"
  by (simp add: respond_def Let_def send_def set_header_def split: option.splits)

lemma respond_content_type:
  "headers (respond env od request data params res resp) ''Content-Type'' =
     Some (if graphiql od = Some True \<and> canDisplayGraphiQL request data
           then ''text/html'' else ''application/json'')"
  by (simp add: respond_def Let_def send_def set_header_def)

lemmas middleware_defs =
  middleware_def parseBody_def parseBody_callback_def getOptions_def getGraphQLParams_def
  run_query_def executor_def perform_execution_def catch_def respond_def sendError_def
  canDisplayGraphiQL_def raw_def js_or_def truthy_def default_data_def called_def send_def
  set_header_def indent_def httpError_def Error_def start_def fresh_response_def

lemmas example_defs =
  example_collaborators_def example_optionsObj_def example_request_def example_params_def

lemma example_getOptions:
  "getOptions (OptionsObject (example_optionsObj g)) request = Inr (example_optionsObj g)"
  by (simp add: getOptions_def example_optionsObj_def)

lemma example_getGraphQLParams:
  "q \<noteq> [] \<Longrightarrow>
     getGraphQLParams example_collaborators (example_request m [''query'' \<mapsto> JStr q] None a)
       (default_data None) = Inr (example_params q)"
  by (simp add: getGraphQLParams_def example_request_def example_params_def default_data_def
      js_or_def truthy_def)

lemma executor_rejects:
  assumes "parse env (params_query params) = Inl error
     \<or> (\<exists>documentAST.
          parse env (params_query params) = Inr documentAST
          \<and> (validate env (schema od) documentAST = Inl error
             \<or> validate env (schema od) documentAST = Inr []
               \<and> (http_method request = ''GET''
                    \<and> getOperationAST env documentAST (params_operationName params) = Inl error
                  \<or> (http_method request \<noteq> ''GET''
                       \<or> getOperationAST env documentAST (params_operationName params) = Inr None
                       \<or> getOperationAST env documentAST (params_operationName params)
                            = Inr (Some ''query''))
                     \<and> execute env (schema od) documentAST (rootValue od)
                           (params_variables params) (params_operationName params) = Inl error)))"
  shows "fst (executor env od request data params w) = Rejected error
         \<and> response (snd (executor env od request data params w)) = response w"
  using assms
  by (auto simp: executor_def perform_execution_def called_def Let_def)

lemma middleware_thrown:
  assumes "getOptions opts request = Inr od"
    and "http_method request = ''GET'' \<or> http_method request = ''POST''"
    and "parsedBody request = Inr d"
    and "parseBody_callback env od request w None d = Inl thrown"
  shows "middleware env opts request w =
           Inr (w\<lparr>response := sendError env (response w) thrown (pretty od)\<rparr>)"
proof -
  from assms(3,4)
  have "parseBody request (parseBody_callback env od request w) =
          parseBody_callback env od request w (Some thrown) None"
    by (rule parseBody_thrown)
  with middleware_parseBody [OF assms(1,2), of env w] show ?thesis
    by (simp add: callback_parseError)
qed

lemma respond_graphiql:
  assumes "body (respond env od request data params res resp) = Some (renderGraphiQL g)"
  shows "graphiql od = Some True \<and> canDisplayGraphiQL request data"
  using assms by (simp add: respond_body split: if_splits)

lemma executor_graphiql:
  assumes "body (response (snd (executor env od request data params w))) =
             Some (renderGraphiQL g)"
    and "body (response w) = None"
  shows "graphiql od = Some True \<and> canDisplayGraphiQL request data"
  using assms
  by (auto simp: executor_def perform_execution_def called_def Let_def sendError_body
      split: sum.splits option.splits if_splits)

lemma run_query_graphiql:
  assumes "body (response (run_query env od request data params w)) = Some (renderGraphiQL g)"
    and "body (response w) = None"
  shows "graphiql od = Some True \<and> canDisplayGraphiQL request data"
proof (cases "catch (fst (executor env od request data params w))")
  case None
  then have "run_query env od request data params w =
               snd (executor env od request data params w)"
    by (cases "executor env od request data params w") (simp add: run_query_def)
  with assms show ?thesis
    by (simp add: executor_graphiql)
next
  case (Some res)
  from run_query_catch [OF Some] assms(1) show ?thesis
    by (simp add: respond_graphiql)
qed

lemma callback_graphiql:
  assumes "parseBody_callback env od request w parseError d = Inr w'"
    and "body (response w') = Some (renderGraphiQL g)"
    and "body (response w) = None"
  shows "graphiql od = Some True \<and> canDisplayGraphiQL request (default_data d)"
  using assms
  by (auto simp: parseBody_callback_def Let_def sendError_body send_def set_header_def
      dest: run_query_graphiql split: option.splits sum.splits if_splits)

lemma middleware_graphiql:
  assumes "getOptions opts request = Inr od"
    and "middleware env opts request w = Inr w'"
    and "body (response w') = Some (renderGraphiQL g)"
    and "body (response w) = None"
  shows "graphiql od = Some True
         \<and> (case parsedBody request of
               Inl parseError \<Rightarrow> False
             | Inr d \<Rightarrow> canDisplayGraphiQL request (default_data d))"
proof (cases "http_method request = ''GET'' \<or> http_method request = ''POST''")
  case False
  with assms(1,2) have "w' = w\<lparr>response :=
                       sendError env (set_header ''Allow'' ''GET, POST'' (response w))
                         (httpError 405 ''GraphQL only supports GET and POST requests.'')
                         (pretty od)\<rparr>"
    by (auto simp: middleware_def)
  with assms(3) show ?thesis
    by (simp add: sendError_body)
next
  case True
  from middleware_parseBody [OF assms(1) True, of env w] assms(2)
  have answered: "parseBody request (parseBody_callback env od request w) = Inr w'"
    by simp
  show ?thesis
  proof (cases "parsedBody request")
    case (Inl parseError)
    with answered have "w' = w\<lparr>response := sendError env (response w) parseError (pretty od)\<rparr>"
      by (simp add: parseBody_def callback_parseError)
    with assms(3) show ?thesis
      by (simp add: sendError_body)
  next
    case (Inr d)
    show ?thesis
    proof (cases "parseBody_callback env od request w None d")
      case (Inl thrown)
      with Inr answered
      have "w' = w\<lparr>response := sendError env (response w) thrown (pretty od)\<rparr>"
        by (simp add: parseBody_def callback_parseError)
      with assms(3) show ?thesis
        by (simp add: sendError_body)
    next
      case (Inr done')
      with \<open>parsedBody request = Inr d\<close> answered have "done' = w'"
        by (simp add: parseBody_def)
      with Inr have "parseBody_callback env od request w None d = Inr w'"
        by simp
      from callback_graphiql [OF this assms(3,4)] \<open>parsedBody request = Inr d\<close>
      show ?thesis
        by simp
    qed
  qed
qed

section \<open>The method guard on GET\<close>

text \<open>
  C1. A GET request whose document parses and validates, whose operation is found and is
  not a query, and for which GraphiQL cannot be shown (the \<open>graphiql\<close> option is off,
  \<open>raw\<close> is present, or HTML is not preferred to JSON): the response has status 405,
  the header \<open>Allow: POST\<close>, and as JSON body the one formatted error; the engine is
  asked to parse, to validate and to find the operation, and never to execute.
\<close>

theorem get_non_query_method_not_allowed:
  assumes opts: "getOptions opts request = Inr od"
    and get: "http_method request = ''GET''"
    and decoded: "parsedBody request = Inr d"
    and params: "getGraphQLParams env request (default_data d) = Inr params"
    and given: "truthy (params_query params)"
    and parsed: "parse env (params_query params) = Inr documentAST"
    and valid: "validate env (schema od) documentAST = Inr []"
    and found: "getOperationAST env documentAST (params_operationName params) =
                  Inr (Some operation)"
    and kind: "operation \<noteq> ''query''"
    and unavailable: "graphiql od \<noteq> Some True \<or> raw request (default_data d)
                        \<or> accepts request [''json'', ''html''] \<noteq> Some ''html''"
  shows "case middleware env opts request w of
           Inl thrown \<Rightarrow> False
         | Inr w' \<Rightarrow>
             status (response w') = 405
             \<and> headers (response w') ''Allow'' = Some ''POST''
             \<and> headers (response w') ''Content-Type'' = Some ''application/json''
             \<and> body (response w') =
                 Some (JSON_stringify
                         \<lparr>result_data = None,
                          result_errors =
                            Some [formatError env
                                    (httpError 405
                                       (''Can only perform a '' @ operation @
                                        '' operation from a POST request.''))]\<rparr>
                         (indent (pretty od)))
             \<and> calls w' = calls w @ [Parse, Validate, GetOperationAST]"
proof -
  from unavailable
  have no: "\<not> (graphiql od = Some True \<and> canDisplayGraphiQL request (default_data d))"
    by (auto simp: canDisplayGraphiQL_def)
  have "middleware env opts request w =
          Inr (run_query env od request (default_data d) params w)"
    using opts get decoded params given by (simp add: middleware_run_query)
  moreover
  have "executor env od request (default_data d) params w =
          (Pending,
           w\<lparr>response :=
                sendError env (set_header ''Allow'' ''POST'' (response w))
                  (httpError 405
                     (''Can only perform a '' @ operation @
                      '' operation from a POST request.''))
                  (pretty od),
             calls := calls w @ [Parse, Validate, GetOperationAST]\<rparr>)"
    using executor_non_query [OF parsed valid get found kind, of "default_data d" w] no
    by simp
  then have "run_query env od request (default_data d) params w =
          w\<lparr>response :=
               sendError env (set_header ''Allow'' ''POST'' (response w))
                 (httpError 405
                    (''Can only perform a '' @ operation @
                     '' operation from a POST request.''))
                 (pretty od),
            calls := calls w @ [Parse, Validate, GetOperationAST]\<rparr>"
    by (rule run_query_pending)
  ultimately show ?thesis
    by (simp add: sendError_body sendError_headers set_header_def sendError_def
        httpError_def send_def)
qed

theorem get_non_query_method_not_allowed_witness:
  "getOptions (OptionsObject (example_optionsObj False))
       (example_request ''GET'' [''query'' \<mapsto> JStr ''mutation {m}''] None ''html'')
     = Inr (example_optionsObj False)
   \<and> truthy (params_query (example_params ''mutation {m}''))
   \<and> getOperationAST example_collaborators ''mutation {m}''
         (params_operationName (example_params ''mutation {m}'')) = Inr (Some ''mutation'')
   \<and> (case middleware example_collaborators (OptionsObject (example_optionsObj False))
              (example_request ''GET'' [''query'' \<mapsto> JStr ''mutation {m}''] None ''html'')
              start of
         Inl thrown \<Rightarrow> False
       | Inr w' \<Rightarrow>
           status (response w') = 405
           \<and> headers (response w') ''Allow'' = Some ''POST''
           \<and> headers (response w') ''Content-Type'' = Some ''application/json''
           \<and> body (response w') =
               Some (JSON_stringify
                       \<lparr>result_data = None,
                        result_errors =
                          Some [JObj [(''message'',
                                  JStr ''Can only perform a mutation operation from a POST request.'')]]\<rparr>
                       0)
           \<and> calls w' = [Parse, Validate, GetOperationAST])"
proof -
  let ?request = "example_request ''GET'' [''query'' \<mapsto> JStr ''mutation {m}''] None ''html''"
  let ?od = "example_optionsObj False"
  let ?params = "example_params ''mutation {m}''"
  have opts: "getOptions (OptionsObject ?od) ?request = Inr ?od"
    by (simp add: getOptions_def example_optionsObj_def)
  have get: "http_method ?request = ''GET''"
    by (simp add: example_request_def)
  have decoded: "parsedBody ?request = Inr None"
    by (simp add: example_request_def)
  have params: "getGraphQLParams example_collaborators ?request (default_data None) = Inr ?params"
    by (simp add: getGraphQLParams_def example_request_def example_params_def default_data_def
        js_or_def truthy_def)
  have given: "truthy (params_query ?params)"
    by (simp add: example_params_def truthy_def)
  have parsed: "parse example_collaborators (params_query ?params) = Inr ''mutation {m}''"
    by (simp add: example_collaborators_def example_params_def)
  have valid: "validate example_collaborators (schema ?od) ''mutation {m}'' = Inr []"
    by (simp add: example_collaborators_def)
  have found: "getOperationAST example_collaborators ''mutation {m}''
                 (params_operationName ?params) = Inr (Some ''mutation'')"
    by (simp add: example_collaborators_def)
  have kind: "''mutation'' \<noteq> ''query''"
    by simp
  have unavailable: "graphiql ?od \<noteq> Some True \<or> raw ?request (default_data None)
                       \<or> accepts ?request [''json'', ''html''] \<noteq> Some ''html''"
    by (simp add: example_optionsObj_def)
  from get_non_query_method_not_allowed
         [OF opts get decoded params given parsed valid found kind unavailable, of start]
  show ?thesis
    using opts given found
    by (simp add: start_def example_collaborators_def example_optionsObj_def indent_def
        httpError_def split: sum.splits)
qed

text \<open>
  C2, amended. A GET request whose document parses and validates and for which the
  operation lookup finds no operation is not handled as a non-query operation: the guard
  of line 108 does not apply, so the request is neither answered with GraphiQL at that
  point nor refused with 405 and \<open>Allow: POST\<close>. The document is executed, and the
  response is the one formed from what execution gives (its result, or the error it
  throws), with status 200 or 400.
\<close>

theorem get_unresolved_operation_executes:
  assumes opts: "getOptions opts request = Inr od"
    and get: "http_method request = ''GET''"
    and decoded: "parsedBody request = Inr d"
    and params: "getGraphQLParams env request (default_data d) = Inr params"
    and given: "truthy (params_query params)"
    and parsed: "parse env (params_query params) = Inr documentAST"
    and valid: "validate env (schema od) documentAST = Inr []"
    and absent: "getOperationAST env documentAST (params_operationName params) = Inr None"
  shows "case middleware env opts request w of
           Inl thrown \<Rightarrow> False
         | Inr w' \<Rightarrow>
             calls w' = calls w @ [Parse, Validate, GetOperationAST, Execute]
             \<and> response w' =
                 respond env od request (default_data d) params
                   (case execute env (schema od) documentAST (rootValue od)
                           (params_variables params) (params_operationName params) of
                      Inl error \<Rightarrow> \<lparr>result_data = None, result_errors = Some [error]\<rparr>
                    | Inr res \<Rightarrow> res)
                   (response w)
             \<and> status (response w') \<noteq> 405
             \<and> headers (response w') ''Allow'' = headers (response w) ''Allow''"
proof -
  have "middleware env opts request w =
          Inr (run_query env od request (default_data d) params w)"
    using opts get decoded params given by (simp add: middleware_run_query)
  moreover
  have "executor env od request (default_data d) params w =
          perform_execution env od documentAST params
            (w\<lparr>calls := calls w @ [Parse, Validate, GetOperationAST]\<rparr>)"
    using parsed valid get absent by (rule executor_unresolved)
  then have "run_query env od request (default_data d) params w =
          w\<lparr>calls := calls w @ [Parse, Validate, GetOperationAST, Execute],
            response :=
              respond env od request (default_data d) params
                (case execute env (schema od) documentAST (rootValue od)
                        (params_variables params) (params_operationName params) of
                   Inl error \<Rightarrow> \<lparr>result_data = None, result_errors = Some [error]\<rparr>
                 | Inr res \<Rightarrow> res)
                (response w)\<rparr>"
    by (simp add: run_query_executed)
  ultimately show ?thesis
    by (simp add: respond_status respond_headers)
qed

theorem get_unresolved_operation_executes_witness:
  "getOperationAST example_collaborators ''query A {a} mutation B {m}''
       (params_operationName (example_params ''query A {a} mutation B {m}'')) = Inr None
   \<and> (case example_unresolved of
         Inl thrown \<Rightarrow> False
       | Inr w' \<Rightarrow>
           calls w' = [Parse, Validate, GetOperationAST, Execute]
           \<and> status (response w') = 400
           \<and> body (response w') =
               Some (JSON_stringify
                       \<lparr>result_data = None,
                        result_errors =
                          Some [JObj [(''message'', JStr ''Must provide operation name.'')]]\<rparr>
                       0))"
proof -
  let ?q = "''query A {a} mutation B {m}''"
  let ?request = "example_request ''GET'' [''query'' \<mapsto> JStr ?q] None ''json''"
  let ?od = "example_optionsObj False"
  let ?params = "example_params ?q"
  have opts: "getOptions (OptionsObject ?od) ?request = Inr ?od"
    by (simp add: getOptions_def example_optionsObj_def)
  have get: "http_method ?request = ''GET''"
    by (simp add: example_request_def)
  have decoded: "parsedBody ?request = Inr None"
    by (simp add: example_request_def)
  have params: "getGraphQLParams example_collaborators ?request (default_data None) = Inr ?params"
    by (simp add: getGraphQLParams_def example_request_def example_params_def default_data_def
        js_or_def truthy_def)
  have given: "truthy (params_query ?params)"
    by (simp add: example_params_def truthy_def)
  have parsed: "parse example_collaborators (params_query ?params) = Inr ?q"
    by (simp add: example_collaborators_def example_params_def)
  have valid: "validate example_collaborators (schema ?od) ?q = Inr []"
    by (simp add: example_collaborators_def)
  have absent: "getOperationAST example_collaborators ?q (params_operationName ?params) = Inr None"
    by (simp add: example_collaborators_def example_params_def)
  from get_unresolved_operation_executes
         [OF opts get decoded params given parsed valid absent, of start]
  show ?thesis
    using absent
    by (simp add: example_unresolved_def respond_status respond_body start_def
        fresh_response_def example_collaborators_def example_optionsObj_def indent_def
        split: sum.splits)
qed

text \<open>
  A GET request with two operations and no operation name, GraphiQL being off: the lookup
  finds nothing and the engine is asked to execute; the error it throws is sent with
  status 400 and no \<open>Allow\<close> header.
\<close>

theorem get_unresolved_operation_counterexample:
  "getOperationAST example_collaborators ''query A {a} mutation B {m}'' None = Inr None
   \<and> graphiql (example_optionsObj False) = Some False
   \<and> \<not> isl example_unresolved
   \<and> status (response (projr example_unresolved)) = 400
   \<and> headers (response (projr example_unresolved)) ''Allow'' = None
   \<and> body (response (projr example_unresolved)) =
       Some (JSON_stringify
               \<lparr>result_data = None,
                result_errors =
                  Some [JObj [(''message'', JStr ''Must provide operation name.'')]]\<rparr>
               0)
   \<and> calls (projr example_unresolved) = [Parse, Validate, GetOperationAST, Execute]"
  by (simp add: example_unresolved_def middleware_defs example_defs)

section \<open>The parameters of the request\<close>

text \<open>
  C3, amended. For every pair of URL parameters and body parameters, each of \<open>query\<close>,
  \<open>operationName\<close> and, before it is decoded, \<open>variables\<close> is the URL value whenever that
  value is truthy, and the body value otherwise, whatever the body value is: the first
  truthy value in the order (URL, body) wins, so a URL value that is present but falsy,
  such as the empty string, gives way to the body. A resolved \<open>variables\<close> that is a
  non-empty string is replaced by its JSON decoding; \<open>getGraphQLParams\<close> throws only when
  that decoding fails.
\<close>

theorem getGraphQLParams_first_truthy:
  "case getGraphQLParams env request data of
     Inr params \<Rightarrow>
       params_query params =
         (if truthy (query request ''query'') then query request ''query'' else data ''query'')
       \<and> params_operationName params =
           (if truthy (query request ''operationName'') then query request ''operationName''
            else data ''operationName'')
       \<and> params_variables params =
           (let variables =
                  (if truthy (query request ''variables'') then query request ''variables''
                   else data ''variables'')
            in case variables of
                 Some (JStr s) \<Rightarrow> if s = [] then variables else JSON_parse env s
               | _ \<Rightarrow> variables)
   | Inl error \<Rightarrow>
       error = httpError 400 ''Variables are invalid JSON.''
       \<and> (case (if truthy (query request ''variables'') then query request ''variables''
                 else data ''variables'') of
             Some (JStr s) \<Rightarrow> s \<noteq> [] \<and> JSON_parse env s = None
           | _ \<Rightarrow> False)"
  by (simp add: getGraphQLParams_def js_or_def Let_def split: option.splits json.splits)

theorem getGraphQLParams_first_truthy_witness:
  "truthy (query (example_request ''GET'' [''query'' \<mapsto> JStr ''{a}'', ''variables'' \<mapsto> JStr ''{}'']
                    None ''json'') ''query'')
   \<and> getGraphQLParams example_collaborators
         (example_request ''GET'' [''query'' \<mapsto> JStr ''{a}'', ''variables'' \<mapsto> JStr ''{}'']
            None ''json'')
         [''query'' \<mapsto> JStr ''{b}''] =
       Inr \<lparr>params_query = Some (JStr ''{a}''), params_variables = Some (JObj []),
            params_operationName = None\<rparr>"
  using getGraphQLParams_first_truthy
          [of example_collaborators
              "example_request ''GET'' [''query'' \<mapsto> JStr ''{a}'', ''variables'' \<mapsto> JStr ''{}'']
                 None ''json''"
              "[''query'' \<mapsto> JStr ''{b}'']"]
  by (simp add: truthy_def split: sum.splits)

text \<open>
  With \<open>query\<close> present in the URL as the empty string and \<open>{a}\<close> in the body, the
  extracted query is the body's.
\<close>

theorem getGraphQLParams_present_counterexample:
  "query example_empty_url_query ''query'' = Some (JStr [])
   \<and> example_body ''query'' = Some (JStr ''{a}'')
   \<and> \<not> isl (getGraphQLParams example_collaborators example_empty_url_query example_body)
   \<and> params_query (projr (getGraphQLParams example_collaborators example_empty_url_query
                             example_body)) = Some (JStr ''{a}'')"
  by (simp add: example_empty_url_query_def example_body_def getGraphQLParams_def js_or_def
      truthy_def)

text \<open>
  C4, amended. For every GET or POST request whose body was decoded and whose resolved
  \<open>variables\<close> is a non-empty string that is not valid JSON, \<open>getGraphQLParams\<close> throws the
  HTTP error 400 "Variables are invalid JSON.", the response has status 400 and as JSON
  body that one formatted error, and the engine is not called: no parse, no validation,
  no execution. (An empty string is not decoded, and the request goes on.)
\<close>

theorem invalid_variables_bad_request:
  assumes opts: "getOptions opts request = Inr od"
    and supported: "http_method request = ''GET'' \<or> http_method request = ''POST''"
    and decoded: "parsedBody request = Inr d"
    and resolved: "(if truthy (query request ''variables'') then query request ''variables''
                    else default_data d ''variables'') = Some (JStr s)"
    and nonempty: "s \<noteq> []"
    and invalid: "JSON_parse env s = None"
  shows "getGraphQLParams env request (default_data d) =
           Inl (httpError 400 ''Variables are invalid JSON.'')
         \<and> parseBody_callback env od request w None d =
             Inl (httpError 400 ''Variables are invalid JSON.'')
         \<and> (case middleware env opts request w of
               Inl escaped \<Rightarrow> False
             | Inr w' \<Rightarrow>
                 status (response w') = 400
                 \<and> headers (response w') ''Content-Type'' = Some ''application/json''
                 \<and> body (response w') =
                     Some (JSON_stringify
                             \<lparr>result_data = None,
                              result_errors =
                                Some [formatError env
                                        (httpError 400 ''Variables are invalid JSON.'')]\<rparr>
                             (indent (pretty od)))
                 \<and> calls w' = calls w)"
proof -
  from resolved
  have "js_or (query request ''variables'') (default_data d ''variables'') = Some (JStr s)"
    by (simp add: js_or_def)
  with nonempty invalid
  have refused: "getGraphQLParams env request (default_data d) =
          Inl (httpError 400 ''Variables are invalid JSON.'')"
    by (simp add: getGraphQLParams_def)
  then have thrown: "parseBody_callback env od request w None d =
          Inl (httpError 400 ''Variables are invalid JSON.'')"
    by (simp add: parseBody_callback_def)
  from middleware_thrown [OF opts supported decoded thrown] refused thrown show ?thesis
    by (simp add: sendError_body sendError_headers sendError_def send_def set_header_def)
qed

theorem invalid_variables_bad_request_witness:
  "JSON_parse example_collaborators ''{'' = None
   \<and> (case middleware example_collaborators (OptionsObject (example_optionsObj False))
              (example_request ''GET'' [''query'' \<mapsto> JStr ''{a}'', ''variables'' \<mapsto> JStr ''{'']
                 None ''json'') start of
         Inl escaped \<Rightarrow> False
       | Inr w' \<Rightarrow>
           status (response w') = 400
           \<and> body (response w') =
               Some (JSON_stringify
                       \<lparr>result_data = None,
                        result_errors =
                          Some [JObj [(''message'', JStr ''Variables are invalid JSON.'')]]\<rparr>
                       0)
           \<and> calls w' = [])"
proof -
  let ?request = "example_request ''GET'' [''query'' \<mapsto> JStr ''{a}'', ''variables'' \<mapsto> JStr ''{'']
                    None ''json''"
  let ?od = "example_optionsObj False"
  have opts: "getOptions (OptionsObject ?od) ?request = Inr ?od"
    by (rule example_getOptions)
  have supported: "http_method ?request = ''GET'' \<or> http_method ?request = ''POST''"
    by simp
  have decoded: "parsedBody ?request = Inr None"
    by simp
  have resolved: "(if truthy (query ?request ''variables'') then query ?request ''variables''
                   else default_data None ''variables'') = Some (JStr ''{'')"
    by (simp add: truthy_def)
  have nonempty: "''{'' \<noteq> []"
    by simp
  have invalid: "JSON_parse example_collaborators ''{'' = None"
    by simp
  from invalid_variables_bad_request [OF opts supported decoded resolved nonempty invalid, of start]
  show ?thesis
    using invalid by (simp add: start_def indent_def split: sum.splits)
qed

text \<open>
  A POST request whose resolved \<open>variables\<close> is the empty string, which is not valid
  JSON: the query is parsed, validated and executed, and the status is 200.
\<close>

theorem invalid_variables_empty_counterexample:
  "js_or (query example_empty_variables ''variables'') (example_empty_body ''variables'') =
     Some (JStr [])
   \<and> JSON_parse example_collaborators [] = None
   \<and> \<not> isl (middleware example_collaborators (OptionsObject (example_optionsObj False))
               example_empty_variables start)
   \<and> status (response (projr (middleware example_collaborators
                                 (OptionsObject (example_optionsObj False))
                                 example_empty_variables start))) = 200
   \<and> calls (projr (middleware example_collaborators (OptionsObject (example_optionsObj False))
                      example_empty_variables start)) = [Parse, Validate, Execute]"
  by (simp add: example_empty_variables_def example_empty_body_def middleware_defs)

text \<open>
  C5. For every GET or POST request whose parameters were extracted and whose query is
  falsy (absent or empty): when GraphiQL can be shown (the \<open>graphiql\<close> option is on,
  \<open>raw\<close> is absent and HTML is preferred to JSON), the response is the empty GraphiQL
  as \<open>text/html\<close>; otherwise the callback throws the HTTP error 400 "Must provide query
  string.", and the response has status 400 and as JSON body that one formatted error.
  The engine is not called in either case.
\<close>

theorem missing_query:
  assumes opts: "getOptions opts request = Inr od"
    and supported: "http_method request = ''GET'' \<or> http_method request = ''POST''"
    and decoded: "parsedBody request = Inr d"
    and params: "getGraphQLParams env request (default_data d) = Inr params"
    and missing: "\<not> truthy (params_query params)"
  shows "if graphiql od = Some True \<and> \<not> raw request (default_data d)
            \<and> accepts request [''json'', ''html''] = Some ''html''
         then (case middleware env opts request w of
                 Inl escaped \<Rightarrow> False
               | Inr w' \<Rightarrow>
                   headers (response w') ''Content-Type'' = Some ''text/html''
                   \<and> body (response w') =
                       Some (renderGraphiQL
                               \<lparr>graphiql_query = None, graphiql_variables = None,
                                graphiql_result = None\<rparr>)
                   \<and> status (response w') = status (response w)
                   \<and> calls w' = calls w)
         else parseBody_callback env od request w None d =
                Inl (httpError 400 ''Must provide query string.'')
              \<and> (case middleware env opts request w of
                    Inl escaped \<Rightarrow> False
                  | Inr w' \<Rightarrow>
                      status (response w') = 400
                      \<and> headers (response w') ''Content-Type'' = Some ''application/json''
                      \<and> body (response w') =
                          Some (JSON_stringify
                                  \<lparr>result_data = None,
                                   result_errors =
                                     Some [formatError env
                                             (httpError 400 ''Must provide query string.'')]\<rparr>
                                  (indent (pretty od)))
                      \<and> calls w' = calls w)"
proof (cases "graphiql od = Some True \<and> canDisplayGraphiQL request (default_data d)")
  case True
  with params missing
  have "parseBody_callback env od request w None d =
          Inr (w\<lparr>response :=
                   send (renderGraphiQL
                           \<lparr>graphiql_query = None, graphiql_variables = None,
                            graphiql_result = None\<rparr>)
                     (set_header ''Content-Type'' ''text/html'' (response w))\<rparr>)"
    by (simp add: parseBody_callback_def)
  with decoded
  have "parseBody request (parseBody_callback env od request w) =
          Inr (w\<lparr>response :=
                   send (renderGraphiQL
                           \<lparr>graphiql_query = None, graphiql_variables = None,
                            graphiql_result = None\<rparr>)
                     (set_header ''Content-Type'' ''text/html'' (response w))\<rparr>)"
    by (rule parseBody_answered)
  with middleware_parseBody [OF opts supported, of env w] True show ?thesis
    by (simp add: canDisplayGraphiQL_def send_def set_header_def)
next
  case False
  with params missing
  have thrown: "parseBody_callback env od request w None d =
          Inl (httpError 400 ''Must provide query string.'')"
    by (simp add: parseBody_callback_def)
  from middleware_thrown [OF opts supported decoded thrown] thrown False show ?thesis
    by (simp add: canDisplayGraphiQL_def sendError_body sendError_headers sendError_def
        send_def set_header_def)
qed

theorem missing_query_witness:
  "\<not> truthy (params_query \<lparr>params_query = None, params_variables = None,
                          params_operationName = None\<rparr>)
   \<and> (case middleware example_collaborators (OptionsObject (example_optionsObj True))
              (example_request ''GET'' Map.empty None ''html'') start of
         Inl escaped \<Rightarrow> False
       | Inr w' \<Rightarrow>
           headers (response w') ''Content-Type'' = Some ''text/html''
           \<and> body (response w') =
               Some (renderGraphiQL
                       \<lparr>graphiql_query = None, graphiql_variables = None,
                        graphiql_result = None\<rparr>)
           \<and> status (response w') = 200)
   \<and> (case middleware example_collaborators (OptionsObject (example_optionsObj True))
              (example_request ''GET'' Map.empty None ''json'') start of
         Inl escaped \<Rightarrow> False
       | Inr w' \<Rightarrow>
           status (response w') = 400
           \<and> body (response w') =
               Some (JSON_stringify
                       \<lparr>result_data = None,
                        result_errors =
                          Some [JObj [(''message'', JStr ''Must provide query string.'')]]\<rparr>
                       0)
           \<and> calls w' = [])"
proof -
  let ?od = "example_optionsObj True"
  let ?params = "\<lparr>params_query = None, params_variables = None, params_operationName = None\<rparr>"
  have missing: "\<not> truthy (params_query ?params)"
    by (simp add: truthy_def)
  {
    fix a :: string
    let ?request = "example_request ''GET'' Map.empty None a"
    have opts: "getOptions (OptionsObject ?od) ?request = Inr ?od"
      by (rule example_getOptions)
    have supported: "http_method ?request = ''GET'' \<or> http_method ?request = ''POST''"
      by simp
    have decoded: "parsedBody ?request = Inr None"
      by simp
    have params: "getGraphQLParams example_collaborators ?request (default_data None) =
                    Inr ?params"
      by (simp add: getGraphQLParams_def default_data_def js_or_def truthy_def)
    note missing_query [OF opts supported decoded params missing, of start]
  }
  note either = this
  from either [of "''html''"] either [of "''json''"] show ?thesis
    using missing
    by (simp add: start_def fresh_response_def indent_def raw_def default_data_def
        split: sum.splits)
qed

section \<open>Validation errors and engine exceptions\<close>

text \<open>
  C6. For every request that reaches the engine and whose document parses and has one or
  more validation errors, the promise is resolved with \<open>{errors: validationErrors}\<close>, the
  response has status 400 and carries exactly those errors, each one formatted, and the
  engine is asked to parse and to validate only: it is never asked to execute.
\<close>

theorem validation_errors_not_executed:
  assumes opts: "getOptions opts request = Inr od"
    and supported: "http_method request = ''GET'' \<or> http_method request = ''POST''"
    and decoded: "parsedBody request = Inr d"
    and params: "getGraphQLParams env request (default_data d) = Inr params"
    and given: "truthy (params_query params)"
    and parsed: "parse env (params_query params) = Inr documentAST"
    and invalid: "validate env (schema od) documentAST = Inr validationErrors"
    and some: "validationErrors \<noteq> []"
  shows "catch (fst (executor env od request (default_data d) params w)) =
           Some \<lparr>result_data = None, result_errors = Some validationErrors\<rparr>
         \<and> (case middleware env opts request w of
               Inl thrown \<Rightarrow> False
             | Inr w' \<Rightarrow>
                 status (response w') = 400
                 \<and> calls w' = calls w @ [Parse, Validate]
                 \<and> body (response w') =
                     Some (if graphiql od = Some True
                              \<and> canDisplayGraphiQL request (default_data d)
                           then renderGraphiQL
                                  \<lparr>graphiql_query = params_query params,
                                   graphiql_variables = params_variables params,
                                   graphiql_result =
                                     Some \<lparr>result_data = None,
                                           result_errors =
                                             Some (map (formatError env) validationErrors)\<rparr>\<rparr>
                           else JSON_stringify
                                  \<lparr>result_data = None,
                                   result_errors =
                                     Some (map (formatError env) validationErrors)\<rparr>
                                  (indent (pretty od))))"
proof -
  have run: "middleware env opts request w =
          Inr (run_query env od request (default_data d) params w)"
    using opts supported decoded params given by (rule middleware_run_query)
  have ex: "executor env od request (default_data d) params w =
          (Resolved \<lparr>result_data = None, result_errors = Some validationErrors\<rparr>,
           w\<lparr>calls := calls w @ [Parse, Validate]\<rparr>)"
    using parsed invalid some by (rule executor_invalid)
  then have settled: "catch (fst (executor env od request (default_data d) params w)) =
          Some \<lparr>result_data = None, result_errors = Some validationErrors\<rparr>"
    by (simp add: catch_def)
  from run_query_catch [OF settled] ex run settled show ?thesis
    by (simp add: respond_status respond_body)
qed

theorem validation_errors_not_executed_witness:
  "validate example_collaborators (schema (example_optionsObj True)) ''{unknown}'' =
     Inr [Error ''Cannot query field unknown'']
   \<and> (case middleware example_collaborators (OptionsObject (example_optionsObj True))
              (example_request ''POST'' [''query'' \<mapsto> JStr ''{unknown}''] None ''json'') start of
         Inl thrown \<Rightarrow> False
       | Inr w' \<Rightarrow>
           status (response w') = 400
           \<and> calls w' = [Parse, Validate]
           \<and> body (response w') =
               Some (JSON_stringify
                       \<lparr>result_data = None,
                        result_errors =
                          Some [JObj [(''message'', JStr ''Cannot query field unknown'')]]\<rparr>
                       0))"
proof -
  let ?q = "''{unknown}''"
  let ?request = "example_request ''POST'' [''query'' \<mapsto> JStr ?q] None ''json''"
  let ?od = "example_optionsObj True"
  let ?params = "example_params ?q"
  have opts: "getOptions (OptionsObject ?od) ?request = Inr ?od"
    by (rule example_getOptions)
  have supported: "http_method ?request = ''GET'' \<or> http_method ?request = ''POST''"
    by (simp add: example_request_def)
  have decoded: "parsedBody ?request = Inr None"
    by (simp add: example_request_def)
  have params: "getGraphQLParams example_collaborators ?request (default_data None) = Inr ?params"
    by (simp add: example_getGraphQLParams)
  have given: "truthy (params_query ?params)"
    by (simp add: truthy_def)
  have parsed: "parse example_collaborators (params_query ?params) = Inr ?q"
    by (simp add: example_collaborators_def example_params_def)
  have invalid: "validate example_collaborators (schema ?od) ?q =
                   Inr [Error ''Cannot query field unknown'']"
    by (simp add: example_collaborators_def)
  have some: "[Error ''Cannot query field unknown''] \<noteq> []"
    by simp
  from validation_errors_not_executed
         [OF opts supported decoded params given parsed invalid some, of start]
  show ?thesis
    using invalid
    by (simp add: start_def canDisplayGraphiQL_def indent_def split: sum.splits)
qed

text \<open>
  C7. For every request that reaches the parse step, an error thrown by the engine while
  parsing, validating, looking the operation up (on GET) or executing is caught and
  becomes the result \<open>{errors: [error]}\<close>: the middleware answers rather than throws,
  the response is the one formed from that result, with the formatted error in it, and
  its status is the 400 of a result without a \<open>data\<close> key.
\<close>

theorem engine_exception_caught:
  assumes opts: "getOptions opts request = Inr od"
    and supported: "http_method request = ''GET'' \<or> http_method request = ''POST''"
    and decoded: "parsedBody request = Inr d"
    and params: "getGraphQLParams env request (default_data d) = Inr params"
    and given: "truthy (params_query params)"
    and raised: "parse env (params_query params) = Inl error
     \<or> (\<exists>documentAST.
          parse env (params_query params) = Inr documentAST
          \<and> (validate env (schema od) documentAST = Inl error
             \<or> validate env (schema od) documentAST = Inr []
               \<and> (http_method request = ''GET''
                    \<and> getOperationAST env documentAST (params_operationName params) = Inl error
                  \<or> (http_method request \<noteq> ''GET''
                       \<or> getOperationAST env documentAST (params_operationName params) = Inr None
                       \<or> getOperationAST env documentAST (params_operationName params)
                            = Inr (Some ''query''))
                     \<and> execute env (schema od) documentAST (rootValue od)
                           (params_variables params) (params_operationName params) = Inl error)))"
  shows "catch (fst (executor env od request (default_data d) params w)) =
           Some \<lparr>result_data = None, result_errors = Some [error]\<rparr>
         \<and> (case middleware env opts request w of
               Inl escaped \<Rightarrow> False
             | Inr w' \<Rightarrow>
                 response w' =
                   respond env od request (default_data d) params
                     \<lparr>result_data = None, result_errors = Some [error]\<rparr> (response w)
                 \<and> status (response w') = 400
                 \<and> body (response w') =
                     Some (if graphiql od = Some True
                              \<and> canDisplayGraphiQL request (default_data d)
                           then renderGraphiQL
                                  \<lparr>graphiql_query = params_query params,
                                   graphiql_variables = params_variables params,
                                   graphiql_result =
                                     Some \<lparr>result_data = None,
                                           result_errors = Some [formatError env error]\<rparr>\<rparr>
                           else JSON_stringify
                                  \<lparr>result_data = None,
                                   result_errors = Some [formatError env error]\<rparr>
                                  (indent (pretty od))))"
proof -
  have run: "middleware env opts request w =
          Inr (run_query env od request (default_data d) params w)"
    using opts supported decoded params given by (rule middleware_run_query)
  from raised
  have rejected: "fst (executor env od request (default_data d) params w) = Rejected error"
    and untouched: "response (snd (executor env od request (default_data d) params w)) =
          response w"
    by (simp_all add: executor_rejects)
  from rejected
  have settled: "catch (fst (executor env od request (default_data d) params w)) =
          Some \<lparr>result_data = None, result_errors = Some [error]\<rparr>"
    by (simp add: catch_def)
  from run_query_catch [OF settled] run settled untouched show ?thesis
    by (simp add: respond_status respond_body)
qed

theorem engine_exception_caught_witness:
  "execute example_collaborators (Some ()) ''{boom}'' None None None = Inl (Error ''boom'')
   \<and> (case middleware example_collaborators (OptionsObject (example_optionsObj False))
              (example_request ''POST'' [''query'' \<mapsto> JStr ''{boom}''] None ''json'') start of
         Inl escaped \<Rightarrow> False
       | Inr w' \<Rightarrow>
           status (response w') = 400
           \<and> body (response w') =
               Some (JSON_stringify
                       \<lparr>result_data = None,
                        result_errors = Some [JObj [(''message'', JStr ''boom'')]]\<rparr>
                       0))"
proof -
  let ?q = "''{boom}''"
  let ?request = "example_request ''POST'' [''query'' \<mapsto> JStr ?q] None ''json''"
  let ?od = "example_optionsObj False"
  let ?params = "example_params ?q"
  have opts: "getOptions (OptionsObject ?od) ?request = Inr ?od"
    by (rule example_getOptions)
  have supported: "http_method ?request = ''GET'' \<or> http_method ?request = ''POST''"
    by simp
  have decoded: "parsedBody ?request = Inr None"
    by simp
  have params: "getGraphQLParams example_collaborators ?request (default_data None) = Inr ?params"
    by (simp add: example_getGraphQLParams)
  have given: "truthy (params_query ?params)"
    by (simp add: truthy_def)
  have raised: "parse example_collaborators (params_query ?params) = Inl (Error ''boom'')
     \<or> (\<exists>documentAST.
          parse example_collaborators (params_query ?params) = Inr documentAST
          \<and> (validate example_collaborators (schema ?od) documentAST = Inl (Error ''boom'')
             \<or> validate example_collaborators (schema ?od) documentAST = Inr []
               \<and> (http_method ?request = ''GET''
                    \<and> getOperationAST example_collaborators documentAST
                         (params_operationName ?params) = Inl (Error ''boom'')
                  \<or> (http_method ?request \<noteq> ''GET''
                       \<or> getOperationAST example_collaborators documentAST
                            (params_operationName ?params) = Inr None
                       \<or> getOperationAST example_collaborators documentAST
                            (params_operationName ?params) = Inr (Some ''query''))
                     \<and> execute example_collaborators (schema ?od) documentAST (rootValue ?od)
                           (params_variables ?params) (params_operationName ?params)
                         = Inl (Error ''boom''))))"
    by simp
  from engine_exception_caught [OF opts supported decoded params given raised, of start]
  show ?thesis
    by (simp add: start_def canDisplayGraphiQL_def indent_def respond_status respond_body
        split: sum.splits)
qed

section \<open>The status and the rendering of a result\<close>

text \<open>
  C8. For every request whose promise settles with a result (from execution, from
  validation, or from a caught error), the response status is 200 if and only if the
  result has its own \<open>data\<close> key, and 400 otherwise, whatever the value under the key
  and whether or not the result has errors.
\<close>

theorem status_from_data_key:
  assumes opts: "getOptions opts request = Inr od"
    and supported: "http_method request = ''GET'' \<or> http_method request = ''POST''"
    and decoded: "parsedBody request = Inr d"
    and params: "getGraphQLParams env request (default_data d) = Inr params"
    and given: "truthy (params_query params)"
    and settled: "catch (fst (executor env od request (default_data d) params w)) = Some res"
  shows "case middleware env opts request w of
           Inl thrown \<Rightarrow> False
         | Inr w' \<Rightarrow>
             status (response w') = (if result_data res = None then 400 else 200)
             \<and> (status (response w') = 200) = (result_data res \<noteq> None)"
proof -
  have "middleware env opts request w =
          Inr (run_query env od request (default_data d) params w)"
    using opts supported decoded params given by (rule middleware_run_query)
  with run_query_catch [OF settled] show ?thesis
    by (simp add: respond_status)
qed

theorem status_from_data_key_witness:
  "catch (fst (executor example_collaborators (example_optionsObj False)
                 (example_request ''POST'' [''query'' \<mapsto> JStr ''{a}''] None ''json'')
                 (default_data None) (example_params ''{a}'') start)) =
     Some \<lparr>result_data = Some (Some JNull), result_errors = None\<rparr>
   \<and> (case middleware example_collaborators (OptionsObject (example_optionsObj False))
              (example_request ''POST'' [''query'' \<mapsto> JStr ''{a}''] None ''json'') start of
         Inl thrown \<Rightarrow> False
       | Inr w' \<Rightarrow> status (response w') = 200)"
proof -
  let ?q = "''{a}''"
  let ?request = "example_request ''POST'' [''query'' \<mapsto> JStr ?q] None ''json''"
  let ?od = "example_optionsObj False"
  let ?params = "example_params ?q"
  have opts: "getOptions (OptionsObject ?od) ?request = Inr ?od"
    by (rule example_getOptions)
  have supported: "http_method ?request = ''GET'' \<or> http_method ?request = ''POST''"
    by simp
  have decoded: "parsedBody ?request = Inr None"
    by simp
  have params: "getGraphQLParams example_collaborators ?request (default_data None) = Inr ?params"
    by (simp add: example_getGraphQLParams)
  have given: "truthy (params_query ?params)"
    by (simp add: truthy_def)
  have settled: "catch (fst (executor example_collaborators ?od ?request (default_data None)
                              ?params start)) =
                   Some \<lparr>result_data = Some (Some JNull), result_errors = None\<rparr>"
    by (simp add: executor_def perform_execution_def catch_def)
  from status_from_data_key [OF opts supported decoded params given settled]
  show ?thesis
    using settled by (simp split: sum.splits)
qed

text \<open>
  C9. \<open>raw\<close> is true if and only if the key \<open>raw\<close> is in the URL parameters or in the
  body parameters, whatever its value, and GraphiQL cannot be shown when it is true.
  Whenever the middleware answers a request with GraphiQL, at whichever of its decision
  points, the \<open>graphiql\<close> option is on and \<open>raw\<close> is false.
\<close>

theorem raw_present_never_graphiql:
  assumes opts: "getOptions opts request = Inr od"
    and fresh: "body (response w) = None"
  shows "raw request data = (''raw'' \<in> dom (query request) \<or> ''raw'' \<in> dom data)
         \<and> (raw request data \<longrightarrow> \<not> canDisplayGraphiQL request data)
         \<and> (case middleware env opts request w of
               Inl thrown \<Rightarrow> True
             | Inr w' \<Rightarrow>
                 (case body (response w') of
                    Some (renderGraphiQL g) \<Rightarrow>
                      graphiql od = Some True
                      \<and> (case parsedBody request of
                            Inl parseError \<Rightarrow> False
                          | Inr d \<Rightarrow> \<not> raw request (default_data d))
                  | _ \<Rightarrow> True))"
proof -
  have "raw request data = (''raw'' \<in> dom (query request) \<or> ''raw'' \<in> dom data)"
    by (auto simp: raw_def)
  moreover
  have "raw request data \<longrightarrow> \<not> canDisplayGraphiQL request data"
    by (simp add: canDisplayGraphiQL_def)
  moreover
  have "case middleware env opts request w of
          Inl thrown \<Rightarrow> True
        | Inr w' \<Rightarrow>
            (case body (response w') of
               Some (renderGraphiQL g) \<Rightarrow>
                 graphiql od = Some True
                 \<and> (case parsedBody request of
                       Inl parseError \<Rightarrow> False
                     | Inr d \<Rightarrow> \<not> raw request (default_data d))
             | _ \<Rightarrow> True)"
  proof (cases "middleware env opts request w")
    case (Inl thrown)
    then show ?thesis by simp
  next
    case (Inr w')
    show ?thesis
    proof (cases "body (response w')")
      case None
      with Inr show ?thesis by simp
    next
      case (Some b)
      show ?thesis
      proof (cases b)
        case (JSON_stringify res n)
        with Inr Some show ?thesis by simp
      next
        case (renderGraphiQL g)
        with Some have "body (response w') = Some (renderGraphiQL g)"
          by simp
        from middleware_graphiql [OF opts Inr this fresh] Inr Some renderGraphiQL
        show ?thesis
          by (simp add: canDisplayGraphiQL_def split: sum.splits)
      qed
    qed
  qed
  ultimately show ?thesis
    by simp
qed

theorem raw_present_never_graphiql_witness:
  "raw (example_request ''GET'' [''query'' \<mapsto> JStr ''{a}'', ''raw'' \<mapsto> JStr ''false''] None ''html'')
     Map.empty
   \<and> body (response (projr
        (middleware example_collaborators (OptionsObject (example_optionsObj True))
           (example_request ''GET'' [''query'' \<mapsto> JStr ''{a}''] None ''html'') start))) =
       Some (renderGraphiQL
               \<lparr>graphiql_query = Some (JStr ''{a}''), graphiql_variables = None,
                graphiql_result =
                  Some \<lparr>result_data = Some (Some JNull), result_errors = None\<rparr>\<rparr>)
   \<and> graphiql (example_optionsObj True) = Some True
   \<and> \<not> raw (example_request ''GET'' [''query'' \<mapsto> JStr ''{a}''] None ''html'')
          (default_data None)"
proof -
  let ?od = "example_optionsObj True"
  let ?raw = "example_request ''GET'' [''query'' \<mapsto> JStr ''{a}'', ''raw'' \<mapsto> JStr ''false'']
                None ''html''"
  let ?request = "example_request ''GET'' [''query'' \<mapsto> JStr ''{a}''] None ''html''"
  have opts: "getOptions (OptionsObject ?od) request = Inr ?od" for request
    by (rule example_getOptions)
  have fresh: "body (response start) = None"
    by (simp add: start_def fresh_response_def)
  have rendered: "middleware example_collaborators (OptionsObject ?od) ?request start =
          Inr \<lparr>response =
                 \<lparr>status = 200, headers = [''Content-Type'' \<mapsto> ''text/html''],
                  body = Some (renderGraphiQL
                                 \<lparr>graphiql_query = Some (JStr ''{a}''),
                                  graphiql_variables = None,
                                  graphiql_result =
                                    Some \<lparr>result_data = Some (Some JNull),
                                          result_errors = None\<rparr>\<rparr>)\<rparr>,
               calls = [Parse, Validate, GetOperationAST, Execute]\<rparr>"
    by (simp add: middleware_defs)
  from raw_present_never_graphiql
         [OF opts fresh, of ?raw Map.empty example_collaborators]
       raw_present_never_graphiql
         [OF opts fresh, of ?request Map.empty example_collaborators]
  show ?thesis
    using rendered by simp
qed

text \<open>
  C10. For every request whose promise settles with a result and for which GraphiQL is
  shown (the \<open>graphiql\<close> option is on and GraphiQL can be displayed), the response is
  \<open>text/html\<close>, its body is GraphiQL with the query, the variables and the formatted
  result, and its status still follows the \<open>data\<close> key: 200 with the key, 400 without.
\<close>

theorem graphiql_result_status:
  assumes opts: "getOptions opts request = Inr od"
    and supported: "http_method request = ''GET'' \<or> http_method request = ''POST''"
    and decoded: "parsedBody request = Inr d"
    and params: "getGraphQLParams env request (default_data d) = Inr params"
    and given: "truthy (params_query params)"
    and settled: "catch (fst (executor env od request (default_data d) params w)) = Some res"
    and enabled: "graphiql od = Some True"
    and html: "canDisplayGraphiQL request (default_data d)"
  shows "case middleware env opts request w of
           Inl thrown \<Rightarrow> False
         | Inr w' \<Rightarrow>
             headers (response w') ''Content-Type'' = Some ''text/html''
             \<and> body (response w') =
                 Some (renderGraphiQL
                         \<lparr>graphiql_query = params_query params,
                          graphiql_variables = params_variables params,
                          graphiql_result =
                            Some \<lparr>result_data = result_data res,
                                  result_errors =
                                    map_option (map (formatError env)) (result_errors res)\<rparr>\<rparr>)
             \<and> status (response w') = (if result_data res = None then 400 else 200)"
proof -
  have "middleware env opts request w =
          Inr (run_query env od request (default_data d) params w)"
    using opts supported decoded params given by (rule middleware_run_query)
  with run_query_catch [OF settled] enabled html show ?thesis
    by (simp add: respond_status respond_body respond_content_type)
qed

theorem graphiql_result_status_witness:
  "graphiql (example_optionsObj True) = Some True
   \<and> canDisplayGraphiQL (example_request ''GET'' [''query'' \<mapsto> JStr ''{unknown}''] None ''html'')
        (default_data None)
   \<and> (case middleware example_collaborators (OptionsObject (example_optionsObj True))
              (example_request ''GET'' [''query'' \<mapsto> JStr ''{unknown}''] None ''html'') start of
         Inl thrown \<Rightarrow> False
       | Inr w' \<Rightarrow>
           headers (response w') ''Content-Type'' = Some ''text/html''
           \<and> body (response w') =
               Some (renderGraphiQL
                       \<lparr>graphiql_query = Some (JStr ''{unknown}''),
                        graphiql_variables = None,
                        graphiql_result =
                          Some \<lparr>result_data = None,
                                result_errors =
                                  Some [JObj [(''message'',
                                               JStr ''Cannot query field unknown'')]]\<rparr>\<rparr>)
           \<and> status (response w') = 400)"
proof -
  let ?q = "''{unknown}''"
  let ?request = "example_request ''GET'' [''query'' \<mapsto> JStr ?q] None ''html''"
  let ?od = "example_optionsObj True"
  let ?params = "example_params ?q"
  have opts: "getOptions (OptionsObject ?od) ?request = Inr ?od"
    by (rule example_getOptions)
  have supported: "http_method ?request = ''GET'' \<or> http_method ?request = ''POST''"
    by simp
  have decoded: "parsedBody ?request = Inr None"
    by simp
  have params: "getGraphQLParams example_collaborators ?request (default_data None) = Inr ?params"
    by (simp add: example_getGraphQLParams)
  have given: "truthy (params_query ?params)"
    by (simp add: truthy_def)
  have settled: "catch (fst (executor example_collaborators ?od ?request (default_data None)
                              ?params start)) =
                   Some \<lparr>result_data = None,
                         result_errors = Some [Error ''Cannot query field unknown'']\<rparr>"
    by (simp add: executor_def catch_def)
  have enabled: "graphiql ?od = Some True"
    by simp
  have html: "canDisplayGraphiQL ?request (default_data None)"
    by (simp add: canDisplayGraphiQL_def raw_def default_data_def)
  from graphiql_result_status [OF opts supported decoded params given settled enabled html]
  show ?thesis
    using enabled html by (simp split: sum.splits)
qed

end
